theory Spec2Isabelle
  imports Complex_Main "HOL-Library.Multiset"
begin

section \<open>The live quiz session engine of \<^verbatim>\<open>backend/server.js\<close>\<close>

text \<open>
  The Socket.IO handlers of \<^verbatim>\<open>server.js\<close> (join-quiz, start-quiz, submit-answer,
  next-question, finish-quiz, get-leaderboard, disconnect) are embedded as functions on an
  explicit state: the sockets with the properties the handlers store on them, the registry
  \<^verbatim>\<open>activeQuizSessions\<close> and the timers armed by \<^verbatim>\<open>setTimeout\<close>. What a handler emits
  is returned as a list of emissions. What an awaited store call answers
  (\<^verbatim>\<open>Quiz.findById\<close>, \<^verbatim>\<open>Question.findById\<close>, \<^verbatim>\<open>question.save\<close>, \<^verbatim>\<open>Score.create\<close>,
  \<^verbatim>\<open>quiz.updateStats\<close>) is an input of the event. A handler runs as one step: the
  interleaving of other handlers at an \<^verbatim>\<open>await\<close> is not modelled.
\<close>

subsection \<open>Numbers\<close>

text \<open>
  Scores and point values are integers. A quotient is an exact rational, or one of the
  values JavaScript gives a division by zero. The rounding error of IEEE doubles is not
  modelled: when \<^verbatim>\<open>score / maxScore * 100\<close> is exactly halfway between two integers the
  double computation may land on either of them.
\<close>

datatype jsnum = Fin rat | PInf | NInf | NaN

definition js_div :: "int \<Rightarrow> int \<Rightarrow> jsnum" where
  "js_div a b =
     (if b = 0 then (if a = 0 then NaN else if 0 < a then PInf else NInf)
      else Fin (of_int a / of_int b))"

definition js_mul :: "jsnum \<Rightarrow> int \<Rightarrow> jsnum" where
  "js_mul x k =
     (case x of
        Fin r \<Rightarrow> Fin (r * of_int k)
      | PInf \<Rightarrow> (if k = 0 then NaN else if 0 < k then PInf else NInf)
      | NInf \<Rightarrow> (if k = 0 then NaN else if 0 < k then NInf else PInf)
      | NaN \<Rightarrow> NaN)"

definition Math_round :: "jsnum \<Rightarrow> jsnum" where
  "Math_round x = (case x of Fin r \<Rightarrow> Fin (of_int \<lfloor>r + 1 / 2\<rfloor>) | y \<Rightarrow> y)"

text \<open>\<^verbatim>\<open>Math.round((score / maxScore) * 100)\<close>\<close>

definition percentage_of :: "int \<Rightarrow> int \<Rightarrow> jsnum" where
  "percentage_of score maxScore = Math_round (js_mul (js_div score maxScore) 100)"

subsection \<open>Strings\<close>

text \<open>
  Strings are byte strings; \<^verbatim>\<open>toLowerCase\<close> and \<^verbatim>\<open>trim\<close> are modelled on ASCII
  (letters A to Z; tab, line feed, vertical tab, form feed, carriage return and space).
\<close>

definition lower_char :: "char \<Rightarrow> char" where
  "lower_char c =
     (let n = (of_char c :: nat) in if 65 \<le> n \<and> n \<le> 90 then char_of (n + 32) else c)"

definition toLowerCase :: "string \<Rightarrow> string" where
  "toLowerCase s = map lower_char s"

definition is_space :: "char \<Rightarrow> bool" where
  "is_space c = ((of_char c :: nat) \<in> {9, 10, 11, 12, 13, 32})"

definition trim :: "string \<Rightarrow> string" where
  "trim s = rev (dropWhile is_space (rev (dropWhile is_space s)))"

subsection \<open>Data model\<close>

datatype question_type = MultipleChoice | TrueFalse | FillInBlank

record qoption =
  o_text :: string
  o_isCorrect :: bool

record qstats =
  correctAnswers :: int
  totalAnswers :: int
  accuracyRate :: jsnum

text \<open>
  \<open>q_correctAnswer\<close> is required by the schema only for fill-in-blank questions, and
  \<open>q_timeLimit\<close> may be absent: \<open>None\<close> is JavaScript's \<^verbatim>\<open>undefined\<close>.
\<close>

record question =
  q_id :: string
  q_question :: string
  q_type :: question_type
  q_options :: "qoption list"
  q_correctAnswer :: "string option"
  q_points :: int
  q_timeLimit :: "int option"
  q_stats :: qstats

record quiz =
  quiz_id :: string
  title :: string
  description :: string
  settings_timeLimit :: int
  questions :: "question list"

text \<open>
  An answer record; \<open>a_isCorrect = None\<close> is the \<^verbatim>\<open>undefined\<close> that
  \<^verbatim>\<open>correctOption && ...\<close> yields when no option is flagged correct.
\<close>

record answer =
  a_question :: string
  a_selectedAnswer :: "string option"
  a_isCorrect :: "bool option"
  a_timeSpent :: int
  a_points :: int

record participant =
  p_userId :: string
  p_username :: string
  p_score :: int
  p_answers :: "answer list"

text \<open>
  \<open>participants\<close> is a JavaScript \<^verbatim>\<open>Map\<close> keyed by socket id: an association list in
  insertion order.
\<close>

record session =
  quiz :: quiz
  participants :: "(string \<times> participant) list"
  currentQuestion :: nat
  isActive :: bool
  startTime :: "nat option"

record socket =
  userId :: "string option"
  username :: "string option"
  quizId :: "string option"
  roomId :: "string option"

text \<open>A pending timer: the socket captured by the callback and the delay in milliseconds.\<close>

record state =
  sockets :: "string \<rightharpoonup> socket"
  activeQuizSessions :: "string \<rightharpoonup> session"
  timers :: "(string \<times> int) list"

subsection \<open>The JavaScript Map of participants\<close>

fun Map_get :: "(string \<times> 'v) list \<Rightarrow> string \<Rightarrow> 'v option" where
  "Map_get [] k = None"
| "Map_get ((k', v) # m) k = (if k' = k then Some v else Map_get m k)"

fun Map_set :: "(string \<times> 'v) list \<Rightarrow> string \<Rightarrow> 'v \<Rightarrow> (string \<times> 'v) list" where
  "Map_set [] k v = [(k, v)]"
| "Map_set ((k', v') # m) k v = (if k' = k then (k, v) # m else (k', v') # Map_set m k v)"

fun Map_delete :: "(string \<times> 'v) list \<Rightarrow> string \<Rightarrow> (string \<times> 'v) list" where
  "Map_delete [] k = []"
| "Map_delete ((k', v) # m) k = (if k' = k then m else (k', v) # Map_delete m k)"

definition Map_values :: "(string \<times> 'v) list \<Rightarrow> 'v list" where
  "Map_values m = map snd m"

definition Map_size :: "(string \<times> 'v) list \<Rightarrow> nat" where
  "Map_size m = length m"

subsection \<open>Answer evaluation (submit-answer, lines 200 to 212)\<close>

datatype js_error = TypeError

text \<open>
  The result is the value of \<^verbatim>\<open>isCorrect\<close>, or the TypeError of calling
  \<^verbatim>\<open>toLowerCase\<close> on a value that is not a string.
\<close>

definition check_answer :: "question \<Rightarrow> string option \<Rightarrow> js_error + bool option" where
  "check_answer q selectedAnswer =
     (case q_type q of
        MultipleChoice \<Rightarrow>
          (case find o_isCorrect (q_options q) of
             None \<Rightarrow> Inr None
           | Some correctOption \<Rightarrow> Inr (Some (Some (o_text correctOption) = selectedAnswer)))
      | TrueFalse \<Rightarrow>
          (case find o_isCorrect (q_options q) of
             None \<Rightarrow> Inr None
           | Some correctOption \<Rightarrow> Inr (Some (Some (o_text correctOption) = selectedAnswer)))
      | FillInBlank \<Rightarrow>
          (case q_correctAnswer q of
             None \<Rightarrow> Inl TypeError
           | Some c \<Rightarrow>
               (case selectedAnswer of
                  None \<Rightarrow> Inl TypeError
                | Some a \<Rightarrow> Inr (Some (trim (toLowerCase c) = trim (toLowerCase a))))))"

text \<open>JavaScript truthiness of \<^verbatim>\<open>isCorrect\<close>.\<close>

definition truthy :: "bool option \<Rightarrow> bool" where
  "truthy b = (b = Some True)"

text \<open>\<^verbatim>\<open>const points = isCorrect ? question.points : 0\<close>\<close>

definition award :: "question \<Rightarrow> bool option \<Rightarrow> int" where
  "award q isCorrect = (if truthy isCorrect then q_points q else 0)"

subsection \<open>Emissions and events\<close>

text \<open>The payload \<^verbatim>\<open>questionData\<close>: options carry their text only.\<close>

record question_data =
  questionNumber :: nat
  totalQuestions :: nat
  qd_question :: string
  qd_type :: question_type
  qd_options :: "string list"
  qd_timeLimit :: int
  qd_points :: int

text \<open>
  A leaderboard entry. The entries of finish-quiz carry a percentage, those of
  get-leaderboard do not. No entry has a rank field.
\<close>

record lb_entry =
  e_username :: string
  e_score :: int
  e_percentage :: "jsnum option"

text \<open>The document handed to \<^verbatim>\<open>Score.create\<close> (without its completion timestamp).\<close>

record score_doc =
  sc_user :: string
  sc_quiz :: string
  sc_answers :: "answer list"
  sc_score :: int
  sc_maxScore :: int
  sc_percentage :: jsnum
  sc_completed :: bool

datatype message =
    ErrorMsg string
  | UserJoined string string nat
  | QuizJoined string string string int nat bool
  | QuizStarted question_data
  | NextQuestionData question_data
  | NextQuestionSignal
  | AnswerResult "bool option" int int "string option"
  | FinishQuizSignal
  | QuizCompleted int int jsnum "lb_entry list" int
  | LeaderboardUpdate "lb_entry list"
  | UserLeft "string option" nat
  | ScoreCreate score_doc
  | QuestionSave string qstats
  | QuizUpdateStats string

text \<open>
  \<open>ToSocket\<close> is \<^verbatim>\<open>socket.emit\<close>, \<open>ToRoom\<close> is \<^verbatim>\<open>io.to(room).emit\<close>,
  \<open>ToRoomExcept\<close> is \<^verbatim>\<open>socket.to(room).emit\<close>, \<open>ToStore\<close> is a write to the database.
\<close>

datatype target = ToSocket string | ToRoom string | ToRoomExcept string string | ToStore

type_synonym emission = "target \<times> message"

text \<open>What an awaited \<^verbatim>\<open>findById\<close> answers: it throws, finds nothing, or finds a document.\<close>

datatype 'a lookup = Threw | Missing | Found 'a

text \<open>
  The events. \<open>JoinQuiz sid quizId userId username l\<close>: \<open>l\<close> is the answer of
  \<^verbatim>\<open>Quiz.findById(quizId).populate('questions')\<close>. \<open>StartQuiz sid now\<close>.
  \<open>SubmitAnswer sid questionId selectedAnswer timeSpent l saveOk\<close>: \<open>l\<close> is the answer of
  \<^verbatim>\<open>Question.findById(questionId)\<close>, \<open>saveOk\<close> whether \<^verbatim>\<open>question.save()\<close> succeeds.
  \<open>FinishQuiz sid createOk statsOk\<close>: whether \<^verbatim>\<open>Score.create\<close> and
  \<^verbatim>\<open>quiz.updateStats\<close> succeed. \<open>TimerFire n\<close>: the \<open>n\<close>-th pending timer fires.
\<close>

datatype event =
    Connect string
  | JoinQuiz string string string string "quiz lookup"
  | StartQuiz string nat
  | SubmitAnswer string string "string option" int "question lookup" bool
  | NextQuestion string
  | FinishQuiz string bool bool
  | GetLeaderboard string
  | Disconnect string
  | TimerFire nat

text \<open>
  A handler returns, or throws outside any \<^verbatim>\<open>try\<close>; the state of \<open>Uncaught\<close> is the state
  at the throw.
\<close>

datatype step_result = Continue state "emission list" | Uncaught js_error state

subsection \<open>Helpers of the handlers\<close>

text \<open>\<^verbatim>\<open>activeQuizSessions.get(socket.roomId)\<close>\<close>

definition session_of :: "state \<Rightarrow> socket \<Rightarrow> (string \<times> session) option" where
  "session_of st sock =
     (case roomId sock of
        None \<Rightarrow> None
      | Some r \<Rightarrow> (case activeQuizSessions st r of None \<Rightarrow> None | Some s \<Rightarrow> Some (r, s)))"

text \<open>\<^verbatim>\<open>question.timeLimit || session.quiz.settings.timeLimit\<close>\<close>

definition time_limit :: "question \<Rightarrow> session \<Rightarrow> int" where
  "time_limit q s =
     (case q_timeLimit q of
        None \<Rightarrow> settings_timeLimit (quiz s)
      | Some t \<Rightarrow> (if t = 0 then settings_timeLimit (quiz s) else t))"

definition make_question_data :: "nat \<Rightarrow> question \<Rightarrow> session \<Rightarrow> question_data" where
  "make_question_data n q s =
     \<lparr>questionNumber = n,
      totalQuestions = length (questions (quiz s)),
      qd_question = q_question q,
      qd_type = q_type q,
      qd_options = map o_text (q_options q),
      qd_timeLimit = time_limit q s,
      qd_points = q_points q\<rparr>"

text \<open>
  \<^verbatim>\<open>Array.prototype.sort\<close> is stable; with a comparator that is a difference of integer
  keys its result does not depend on the algorithm. The model is insertion sort.
\<close>

fun insert_cmp :: "('a \<Rightarrow> 'a \<Rightarrow> int) \<Rightarrow> 'a \<Rightarrow> 'a list \<Rightarrow> 'a list" where
  "insert_cmp cmp x [] = [x]"
| "insert_cmp cmp x (y # ys) =
     (if cmp x y \<le> 0 then x # y # ys else y # insert_cmp cmp x ys)"

definition Array_sort :: "('a \<Rightarrow> 'a \<Rightarrow> int) \<Rightarrow> 'a list \<Rightarrow> 'a list" where
  "Array_sort cmp xs = foldr (insert_cmp cmp) xs []"

text \<open>\<^verbatim>\<open>(a, b) => b.score - a.score\<close>\<close>

definition by_score :: "lb_entry \<Rightarrow> lb_entry \<Rightarrow> int" where
  "by_score a b = e_score b - e_score a"

text \<open>\<^verbatim>\<open>findIndex\<close>: the index of the first element that satisfies the predicate, or -1.\<close>

fun findIndex :: "('a \<Rightarrow> bool) \<Rightarrow> 'a list \<Rightarrow> int" where
  "findIndex P [] = -1"
| "findIndex P (x # xs) =
     (if P x then 0 else (let i = findIndex P xs in if i < 0 then -1 else i + 1))"

text \<open>\<^verbatim>\<open>questions.reduce((total, q) => total + q.points, 0)\<close>\<close>

definition max_score :: "session \<Rightarrow> int" where
  "max_score s = foldl (\<lambda>total q. total + q_points q) 0 (questions (quiz s))"

text \<open>The leaderboard of finish-quiz (lines 307 to 313).\<close>

definition finish_entry :: "int \<Rightarrow> participant \<Rightarrow> lb_entry" where
  "finish_entry maxScore p =
     \<lparr>e_username = p_username p, e_score = p_score p,
      e_percentage = Some (percentage_of (p_score p) maxScore)\<rparr>"

definition finish_leaderboard :: "session \<Rightarrow> lb_entry list" where
  "finish_leaderboard s =
     Array_sort by_score (map (finish_entry (max_score s)) (Map_values (participants s)))"

text \<open>The leaderboard of get-leaderboard (lines 343 to 348).\<close>

definition plain_entry :: "participant \<Rightarrow> lb_entry" where
  "plain_entry p = \<lparr>e_username = p_username p, e_score = p_score p, e_percentage = None\<rparr>"

definition live_leaderboard :: "session \<Rightarrow> lb_entry list" where
  "live_leaderboard s = Array_sort by_score (map plain_entry (Map_values (participants s)))"

text \<open>\<^verbatim>\<open>leaderboard.findIndex(p => p.username === participant.username) + 1\<close>\<close>

definition rank_of :: "lb_entry list \<Rightarrow> participant \<Rightarrow> int" where
  "rank_of leaderboard p = findIndex (\<lambda>e. e_username e = p_username p) leaderboard + 1"

text \<open>
  Removing a participant and deleting the session when none is left
  (finish-quiz lines 325 to 330, disconnect lines 360 to 371).
\<close>

definition remove_participant :: "state \<Rightarrow> string \<Rightarrow> session \<Rightarrow> string \<Rightarrow> state" where
  "remove_participant st r s sid =
     (let s' = s\<lparr>participants := Map_delete (participants s) sid\<rparr>
      in if Map_size (participants s') = 0
         then st\<lparr>activeQuizSessions := (activeQuizSessions st)(r := None)\<rparr>
         else st\<lparr>activeQuizSessions := (activeQuizSessions st)(r \<mapsto> s')\<rparr>)"

text \<open>\<^verbatim>\<open>question.stats\<close> after the counters are bumped and \<^verbatim>\<open>updateStats()\<close> has run.\<close>

definition bump_stats :: "qstats \<Rightarrow> bool option \<Rightarrow> qstats" where
  "bump_stats t isCorrect =
     (let total = totalAnswers t + 1;
          correct = (if truthy isCorrect then correctAnswers t + 1 else correctAnswers t)
      in \<lparr>correctAnswers = correct, totalAnswers = total,
          accuracyRate = (if 0 < total then percentage_of correct total else accuracyRate t)\<rparr>)"

text \<open>The correct answer revealed by answer-result (lines 237 to 239).\<close>

definition revealed :: "question \<Rightarrow> string option" where
  "revealed q =
     (if q_type q = FillInBlank then q_correctAnswer q
      else map_option o_text (find o_isCorrect (q_options q)))"

subsection \<open>The handlers\<close>

text \<open>join-quiz (lines 93 to 155).\<close>

definition fresh_session :: "quiz \<Rightarrow> session" where
  "fresh_session qz =
     \<lparr>quiz = qz, participants = [], currentQuestion = 0, isActive = False, startTime = None\<rparr>"

definition join_quiz ::
  "state \<Rightarrow> string \<Rightarrow> string \<Rightarrow> string \<Rightarrow> string \<Rightarrow> quiz lookup \<Rightarrow> step_result" where
  "join_quiz st sid qid uid uname l =
     (case sockets st sid of
        None \<Rightarrow> Continue st []
      | Some sock \<Rightarrow>
          (case l of
             Threw \<Rightarrow> Continue st [(ToSocket sid, ErrorMsg ''Failed to join quiz'')]
           | Missing \<Rightarrow> Continue st [(ToSocket sid, ErrorMsg ''Quiz not found'')]
           | Found qz \<Rightarrow>
               (let r = ''quiz-'' @ qid;
                    sock' = sock\<lparr>userId := Some uid, username := Some uname,
                                 quizId := Some qid, roomId := Some r\<rparr>;
                    s = (case activeQuizSessions st r of
                           None \<Rightarrow> fresh_session qz
                         | Some s0 \<Rightarrow> s0);
                    s' = s\<lparr>participants :=
                            Map_set (participants s) sid
                              \<lparr>p_userId = uid, p_username = uname, p_score = 0, p_answers = []\<rparr>\<rparr>;
                    n = Map_size (participants s')
                in Continue
                     (st\<lparr>sockets := (sockets st)(sid \<mapsto> sock'),
                         activeQuizSessions := (activeQuizSessions st)(r \<mapsto> s')\<rparr>)
                     [(ToRoomExcept r sid, UserJoined uid uname n),
                      (ToSocket sid,
                       QuizJoined (quiz_id qz) (title qz) (description qz)
                         (settings_timeLimit qz) n (isActive s'))])))"

text \<open>
  start-quiz (lines 158 to 184). The handler has no \<^verbatim>\<open>try\<close>: with an empty question list
  \<^verbatim>\<open>questions[0]\<close> is \<^verbatim>\<open>undefined\<close> and reading \<^verbatim>\<open>question.question\<close> throws, after the
  session has been marked active.
\<close>

definition start_quiz :: "state \<Rightarrow> string \<Rightarrow> nat \<Rightarrow> step_result" where
  "start_quiz st sid now =
     (case sockets st sid of
        None \<Rightarrow> Continue st []
      | Some sock \<Rightarrow>
          (case session_of st sock of
             None \<Rightarrow> Continue st []
           | Some (r, s) \<Rightarrow>
               (let s' = s\<lparr>isActive := True, startTime := Some now, currentQuestion := 0\<rparr>;
                    st' = st\<lparr>activeQuizSessions := (activeQuizSessions st)(r \<mapsto> s')\<rparr>
                in (case questions (quiz s') of
                      [] \<Rightarrow> Uncaught TypeError st'
                    | q # _ \<Rightarrow>
                        Continue (st'\<lparr>timers := timers st' @ [(sid, time_limit q s' * 1000)]\<rparr>)
                          [(ToRoom r, QuizStarted (make_question_data 1 q s'))]))))"

text \<open>submit-answer (lines 187 to 246).\<close>

definition submit_answer ::
  "state \<Rightarrow> string \<Rightarrow> string \<Rightarrow> string option \<Rightarrow> int \<Rightarrow> question lookup \<Rightarrow> bool \<Rightarrow> step_result"
  where
  "submit_answer st sid questionId selectedAnswer timeSpent l saveOk =
     (case sockets st sid of
        None \<Rightarrow> Continue st []
      | Some sock \<Rightarrow>
          (case session_of st sock of
             None \<Rightarrow> Continue st []
           | Some (r, s) \<Rightarrow>
               if \<not> isActive s then Continue st []
               else
                 (case Map_get (participants s) sid of
                    None \<Rightarrow> Continue st []
                  | Some p \<Rightarrow>
                      (case l of
                         Threw \<Rightarrow> Continue st [(ToSocket sid, ErrorMsg ''Failed to submit answer'')]
                       | Missing \<Rightarrow> Continue st []
                       | Found q \<Rightarrow>
                           (case check_answer q selectedAnswer of
                              Inl e \<Rightarrow>
                                Continue st [(ToSocket sid, ErrorMsg ''Failed to submit answer'')]
                            | Inr isCorrect \<Rightarrow>
                                (let points = award q isCorrect;
                                     p' = p\<lparr>p_answers := p_answers p @
                                              [\<lparr>a_question = questionId,
                                                a_selectedAnswer = selectedAnswer,
                                                a_isCorrect = isCorrect,
                                                a_timeSpent = timeSpent,
                                                a_points = points\<rparr>],
                                            p_score := p_score p + points\<rparr>;
                                     s' = s\<lparr>participants := Map_set (participants s) sid p'\<rparr>;
                                     st' = st\<lparr>activeQuizSessions :=
                                                (activeQuizSessions st)(r \<mapsto> s')\<rparr>;
                                     save = (ToStore,
                                             QuestionSave (q_id q) (bump_stats (q_stats q) isCorrect))
                                 in if saveOk
                                    then Continue st'
                                           [save,
                                            (ToSocket sid,
                                             AnswerResult isCorrect points (p_score p') (revealed q))]
                                    else Continue st'
                                           [save,
                                            (ToSocket sid,
                                             ErrorMsg ''Failed to submit answer'')]))))))"

text \<open>next-question (lines 249 to 278).\<close>

definition next_question :: "state \<Rightarrow> string \<Rightarrow> step_result" where
  "next_question st sid =
     (case sockets st sid of
        None \<Rightarrow> Continue st []
      | Some sock \<Rightarrow>
          (case session_of st sock of
             None \<Rightarrow> Continue st []
           | Some (r, s) \<Rightarrow>
               if \<not> isActive s then Continue st []
               else
                 (let s' = s\<lparr>currentQuestion := currentQuestion s + 1\<rparr>;
                      st' = st\<lparr>activeQuizSessions := (activeQuizSessions st)(r \<mapsto> s')\<rparr>
                  in if currentQuestion s' \<ge> length (questions (quiz s'))
                     then Continue st' [(ToSocket sid, FinishQuizSignal)]
                     else
                       (let q = questions (quiz s') ! currentQuestion s'
                        in Continue
                             (st'\<lparr>timers := timers st' @ [(sid, time_limit q s' * 1000)]\<rparr>)
                             [(ToRoom r,
                               NextQuestionData
                                 (make_question_data (currentQuestion s' + 1) q s'))]))))"

text \<open>finish-quiz (lines 281 to 336).\<close>

definition finish_quiz :: "state \<Rightarrow> string \<Rightarrow> bool \<Rightarrow> bool \<Rightarrow> step_result" where
  "finish_quiz st sid createOk statsOk =
     (case sockets st sid of
        None \<Rightarrow> Continue st []
      | Some sock \<Rightarrow>
          (case session_of st sock of
             None \<Rightarrow> Continue st []
           | Some (r, s) \<Rightarrow>
               (case Map_get (participants s) sid of
                  None \<Rightarrow> Continue st []
                | Some p \<Rightarrow>
                    (let maxScore = max_score s;
                         create = (ToStore,
                                   ScoreCreate
                                     \<lparr>sc_user = p_userId p, sc_quiz = quiz_id (quiz s),
                                      sc_answers = p_answers p, sc_score = p_score p,
                                      sc_maxScore = maxScore,
                                      sc_percentage = percentage_of (p_score p) maxScore,
                                      sc_completed = True\<rparr>);
                         failed = (ToSocket sid, ErrorMsg ''Failed to finish quiz'')
                     in if \<not> createOk then Continue st [create, failed]
                        else if \<not> statsOk
                        then Continue st [create, (ToStore, QuizUpdateStats (quiz_id (quiz s))), failed]
                        else
                          (let leaderboard = finish_leaderboard s
                           in Continue (remove_participant st r s sid)
                                [create,
                                 (ToStore, QuizUpdateStats (quiz_id (quiz s))),
                                 (ToSocket sid,
                                  QuizCompleted (p_score p) maxScore
                                    (percentage_of (p_score p) maxScore) leaderboard
                                    (rank_of leaderboard p))])))))"

text \<open>get-leaderboard (lines 339 to 351).\<close>

definition get_leaderboard :: "state \<Rightarrow> string \<Rightarrow> step_result" where
  "get_leaderboard st sid =
     (case sockets st sid of
        None \<Rightarrow> Continue st []
      | Some sock \<Rightarrow>
          (case session_of st sock of
             None \<Rightarrow> Continue st []
           | Some (r, s) \<Rightarrow> Continue st [(ToSocket sid, LeaderboardUpdate (live_leaderboard s))]))"

text \<open>disconnect (lines 354 to 374); the socket is gone afterwards.\<close>

definition disconnect :: "state \<Rightarrow> string \<Rightarrow> step_result" where
  "disconnect st sid =
     (case sockets st sid of
        None \<Rightarrow> Continue st []
      | Some sock \<Rightarrow>
          (let gone = (\<lambda>t. t\<lparr>sockets := (sockets t)(sid := None)\<rparr>)
           in (case session_of st sock of
                 None \<Rightarrow> Continue (gone st) []
               | Some (r, s) \<Rightarrow>
                   Continue (gone (remove_participant st r s sid))
                     [(ToRoomExcept r sid,
                       UserLeft (username sock)
                         (Map_size (Map_delete (participants s) sid)))])))"

text \<open>A new connection: a socket with none of the properties set.\<close>

definition connect :: "state \<Rightarrow> string \<Rightarrow> step_result" where
  "connect st sid =
     (case sockets st sid of
        Some _ \<Rightarrow> Continue st []
      | None \<Rightarrow>
          Continue
            (st\<lparr>sockets := (sockets st)(sid \<mapsto>
                   \<lparr>userId = None, username = None, quizId = None, roomId = None\<rparr>)\<rparr>) [])"

text \<open>
  A timer fires (lines 181 to 183 and 275 to 277): the callback runs
  \<^verbatim>\<open>socket.emit('next-question')\<close>, which sends the bare event to the client of the socket that
  armed the timer. No timer is ever cancelled. A disconnected socket receives nothing.
\<close>

definition timer_fire :: "state \<Rightarrow> nat \<Rightarrow> step_result" where
  "timer_fire st n =
     (if n < length (timers st)
      then (let sid = fst (timers st ! n);
                st' = st\<lparr>timers := take n (timers st) @ drop (Suc n) (timers st)\<rparr>
            in (case sockets st sid of
                  None \<Rightarrow> Continue st' []
                | Some _ \<Rightarrow> Continue st' [(ToSocket sid, NextQuestionSignal)]))
      else Continue st [])"

fun step :: "state \<Rightarrow> event \<Rightarrow> step_result" where
  "step st (Connect sid) = connect st sid"
| "step st (JoinQuiz sid qid uid uname l) = join_quiz st sid qid uid uname l"
| "step st (StartQuiz sid now) = start_quiz st sid now"
| "step st (SubmitAnswer sid questionId selectedAnswer timeSpent l saveOk) =
     submit_answer st sid questionId selectedAnswer timeSpent l saveOk"
| "step st (NextQuestion sid) = next_question st sid"
| "step st (FinishQuiz sid createOk statsOk) = finish_quiz st sid createOk statsOk"
| "step st (GetLeaderboard sid) = get_leaderboard st sid"
| "step st (Disconnect sid) = disconnect st sid"
| "step st (TimerFire n) = timer_fire st n"

text \<open>A run: the events in order, the emissions accumulated; an uncaught throw ends it.\<close>

fun run :: "state \<Rightarrow> emission list \<Rightarrow> event list \<Rightarrow> step_result" where
  "run st out [] = Continue st out"
| "run st out (e # es) =
     (case step st e of
        Continue st' ems \<Rightarrow> run st' (out @ ems) es
      | Uncaught err st' \<Rightarrow> Uncaught err st')"

definition init :: state where
  "init = \<lparr>sockets = Map.empty, activeQuizSessions = Map.empty, timers = []\<rparr>"

text \<open>What a step leaves behind.\<close>

fun result_state :: "step_result \<Rightarrow> state" where
  "result_state (Continue st ems) = st"
| "result_state (Uncaught err st) = st"

fun result_emissions :: "step_result \<Rightarrow> emission list" where
  "result_emissions (Continue st ems) = ems"
| "result_emissions (Uncaught err st) = []"

definition participant_of :: "state \<Rightarrow> string \<Rightarrow> string \<Rightarrow> participant option" where
  "participant_of st r sid =
     (case activeQuizSessions st r of None \<Rightarrow> None | Some s \<Rightarrow> Map_get (participants s) sid)"

subsection \<open>Notions used by the properties\<close>

text \<open>Whether a number is neither NaN nor an infinity.\<close>

definition is_finite :: "jsnum \<Rightarrow> bool" where
  "is_finite x = (case x of Fin r \<Rightarrow> True | _ \<Rightarrow> False)"

text \<open>
  The leaderboard of finish-quiz with the connection id kept beside each entry, and the
  position in it of the entry of a given connection: the participant's own position.
\<close>

definition tagged_leaderboard :: "session \<Rightarrow> (string \<times> lb_entry) list" where
  "tagged_leaderboard s =
     Array_sort (\<lambda>a b. by_score (snd a) (snd b))
       (map (\<lambda>(k, p). (k, finish_entry (max_score s) p)) (participants s))"

definition own_position :: "session \<Rightarrow> string \<Rightarrow> int" where
  "own_position s sid = findIndex (\<lambda>(k, e). k = sid) (tagged_leaderboard s) + 1"

text \<open>No registered session is without participants.\<close>

definition sessions_nonempty :: "state \<Rightarrow> bool" where
  "sessions_nonempty st =
     (\<forall>r s. activeQuizSessions st r = Some s \<longrightarrow> participants s \<noteq> [])"

text \<open>The invariant of the spec: the question index of every active session is in range.\<close>

definition index_in_range :: "state \<Rightarrow> bool" where
  "index_in_range st =
     (\<forall>r s. activeQuizSessions st r = Some s \<longrightarrow> isActive s \<longrightarrow>
        currentQuestion s < length (questions (quiz s)))"


subsection \<open>Timeouts\<close>



text \<open>How often the finish signal was emitted, and the numbers of the questions broadcast.\<close>

definition finish_signals :: "emission list \<Rightarrow> nat" where
  "finish_signals ems = length (filter (\<lambda>e. snd e = FinishQuizSignal) ems)"

fun shown :: "emission \<Rightarrow> nat list" where
  "shown (t, QuizStarted d) = [questionNumber d]"
| "shown (t, NextQuestionData d) = [questionNumber d]"
| "shown (t, m) = []"

definition questions_shown :: "emission list \<Rightarrow> nat list" where
  "questions_shown ems = concat (map shown ems)"


subsection \<open>Sample data\<close>

definition no_stats :: qstats where
  "no_stats = \<lparr>correctAnswers = 0, totalAnswers = 0, accuracyRate = Fin 0\<rparr>"

definition paris_mc :: question where
  "paris_mc =
     \<lparr>q_id = ''q1'', q_question = ''Capital of France?'', q_type = MultipleChoice,
      q_options = [\<lparr>o_text = ''London'', o_isCorrect = False\<rparr>,
                   \<lparr>o_text = ''Paris'', o_isCorrect = True\<rparr>],
      q_correctAnswer = None, q_points = 10, q_timeLimit = Some 30, q_stats = no_stats\<rparr>"

definition paris_fib :: question where
  "paris_fib =
     \<lparr>q_id = ''q2'', q_question = ''The capital of France is ...'', q_type = FillInBlank,
      q_options = [], q_correctAnswer = Some ''Paris'', q_points = 5, q_timeLimit = None,
      q_stats = no_stats\<rparr>"

definition sample_quiz :: quiz where
  "sample_quiz =
     \<lparr>quiz_id = ''a1'', title = ''Capitals'', description = ''Two questions'',
      settings_timeLimit = 20, questions = [paris_mc, paris_fib]\<rparr>"

text \<open>Two participants join the room of the sample quiz.\<close>

definition lobby :: "event list" where
  "lobby =
     [Connect ''s1'', JoinQuiz ''s1'' ''a1'' ''u1'' ''ann'' (Found sample_quiz),
      Connect ''s2'', JoinQuiz ''s2'' ''a1'' ''u2'' ''bob'' (Found sample_quiz)]"

definition started :: state where
  "started = result_state (run init [] (lobby @ [StartQuiz ''s1'' 0]))"

definition second_question :: state where
  "second_question =
     result_state (run init [] (lobby @ [StartQuiz ''s1'' 0, NextQuestion ''s1'']))"

text \<open>A submission for the first question, sent after the session has moved to the second.\<close>

definition stale_submit :: step_result where
  "stale_submit =
     submit_answer second_question ''s2'' ''q1'' (Some ''Paris'') 40 (Found paris_mc) True"

definition room_socket :: "string \<Rightarrow> string \<Rightarrow> socket" where
  "room_socket u n =
     \<lparr>userId = Some u, username = Some n, quizId = Some ''a1'', roomId = Some ''quiz-a1''\<rparr>"

definition newcomer :: "string \<Rightarrow> string \<Rightarrow> participant" where
  "newcomer u n = \<lparr>p_userId = u, p_username = n, p_score = 0, p_answers = []\<rparr>"

definition sample_session :: "nat \<Rightarrow> session" where
  "sample_session i =
     \<lparr>quiz = sample_quiz,
      participants = [(''s1'', newcomer ''u1'' ''ann''), (''s2'', newcomer ''u2'' ''bob'')],
      currentQuestion = i, isActive = True, startTime = Some 0\<rparr>"





text \<open>A quiz without questions, and a room where one participant has joined it.\<close>

definition empty_quiz :: quiz where
  "empty_quiz =
     \<lparr>quiz_id = ''e1'', title = ''Draft'', description = ''No questions yet'',
      settings_timeLimit = 30, questions = []\<rparr>"

definition empty_room :: state where
  "empty_room =
     result_state (run init [] [Connect ''s1'', JoinQuiz ''s1'' ''e1'' ''u1'' ''ann'' (Found empty_quiz)])"

definition empty_session :: session where
  "empty_session = (fresh_session empty_quiz)\<lparr>participants := [(''s1'', newcomer ''u1'' ''ann'')]\<rparr>"

definition empty_socket :: socket where
  "empty_socket = \<lparr>userId = Some ''u1'', username = Some ''ann'', quizId = Some ''e1'',
      roomId = Some ''quiz-e1''\<rparr>"

text \<open>Two participants with the same display name; the first has answered correctly.\<close>

definition namesakes :: state where
  "namesakes =
     result_state
       (run init []
          [Connect ''s1'', JoinQuiz ''s1'' ''a1'' ''u1'' ''sam'' (Found sample_quiz),
           Connect ''s2'', JoinQuiz ''s2'' ''a1'' ''u2'' ''sam'' (Found sample_quiz),
           StartQuiz ''s1'' 0,
           SubmitAnswer ''s1'' ''q1'' (Some ''Paris'') 5 (Found paris_mc) True])"

definition namesakes_session :: session where
  "namesakes_session =
     \<lparr>quiz = sample_quiz,
      participants =
        [(''s1'', \<lparr>p_userId = ''u1'', p_username = ''sam'', p_score = 10,
                   p_answers = [\<lparr>a_question = ''q1'', a_selectedAnswer = Some ''Paris'',
                                  a_isCorrect = Some True, a_timeSpent = 5, a_points = 10\<rparr>]\<rparr>),
         (''s2'', newcomer ''u2'' ''sam'')],
      currentQuestion = 0, isActive = True, startTime = Some 0\<rparr>"









section \<open>Properties\<close>

subsection \<open>Basic facts\<close>

lemmas handler_defs = connect_def join_quiz_def start_quiz_def submit_answer_def next_question_def
  finish_quiz_def get_leaderboard_def disconnect_def timer_fire_def session_of_def
  fresh_session_def remove_participant_def Map_size_def Map_values_def init_def Let_def

lemma Map_get_set [simp]: "Map_get (Map_set m k v) k' = (if k' = k then Some v else Map_get m k')"
  by (induction m) auto

lemma percentage_of_div:
  assumes "b \<noteq> 0"
  shows "percentage_of a b = Fin (of_int ((200 * a + b) div (2 * b)))"
proof -
  have "(of_int a / of_int b * of_int 100 + 1 / 2 :: rat) = of_int (200 * a + b) / of_int (2 * b)"
    using assms by (simp add: field_simps)
  then have "\<lfloor>(of_int a / of_int b * of_int 100 + 1 / 2 :: rat)\<rfloor> = (200 * a + b) div (2 * b)"
    by (simp only: floor_divide_of_int_eq)
  then show ?thesis
    using assms by (simp add: percentage_of_def js_div_def js_mul_def Math_round_def)
qed

lemma started_eq:
  "started =
     \<lparr>sockets = [''s1'' \<mapsto> room_socket ''u1'' ''ann'', ''s2'' \<mapsto> room_socket ''u2'' ''bob''],
      activeQuizSessions = [''quiz-a1'' \<mapsto> sample_session 0],
      timers = [(''s1'', 30000)]\<rparr>"
  by (simp add: started_def lobby_def handler_defs room_socket_def newcomer_def
      sample_session_def sample_quiz_def time_limit_def paris_mc_def)

lemma second_question_eq:
  "second_question =
     \<lparr>sockets = [''s1'' \<mapsto> room_socket ''u1'' ''ann'', ''s2'' \<mapsto> room_socket ''u2'' ''bob''],
      activeQuizSessions = [''quiz-a1'' \<mapsto> sample_session 1],
      timers = [(''s1'', 30000), (''s1'', 20000)]\<rparr>"
  by (simp add: second_question_def lobby_def handler_defs room_socket_def newcomer_def
      sample_session_def sample_quiz_def time_limit_def paris_mc_def paris_fib_def)

subsection \<open>Answer evaluation\<close>



text \<open>
  On a payload whose answer is a string, and with the correct answer that the schema
  requires of a fill-in-blank question, the evaluation does not throw.
\<close>

lemma check_answer_total:
  assumes "q_type q = FillInBlank \<longrightarrow> q_correctAnswer q \<noteq> None"
  shows "\<exists>b. check_answer q (Some a) = Inr b"
  using assms
  by (cases "q_type q"; cases "find o_isCorrect (q_options q)")
     (auto simp: check_answer_def)



subsection \<open>Submitting an answer\<close>

lemma award_eq: "award q b = (if b = Some True then q_points q else 0)"
  by (simp add: award_def truthy_def)

lemma submit_answer_step:
  assumes "sockets st sid = Some sock" "session_of st sock = Some (r, s)" "isActive s"
    "Map_get (participants s) sid = Some p" "check_answer q sel = Inr b"
  shows "result_state (submit_answer st sid qid sel t (Found q) ok) =
           st\<lparr>activeQuizSessions := (activeQuizSessions st)(r \<mapsto>
             s\<lparr>participants := Map_set (participants s) sid
               (p\<lparr>p_answers := p_answers p @
                    [\<lparr>a_question = qid, a_selectedAnswer = sel, a_isCorrect = b,
                      a_timeSpent = t, a_points = award q b\<rparr>],
                  p_score := p_score p + award q b\<rparr>)\<rparr>)\<rparr>"
    and "result_emissions (submit_answer st sid qid sel t (Found q) ok) =
           [(ToStore, QuestionSave (q_id q) (bump_stats (q_stats q) b)),
            (ToSocket sid,
             if ok then AnswerResult b (award q b) (p_score p + award q b) (revealed q)
             else ErrorMsg ''Failed to submit answer'')]"
  using assms by (simp_all add: submit_answer_def Let_def)

text \<open>
  C3. For every accepted submit-answer (the session exists and is active, the participant is
  known, the question is found and evaluated) the points awarded are the question's point
  value when the answer is correct and 0 otherwise; the participant afterwards is the
  participant before with exactly one answer record, carrying the computed correctness and
  points, appended and the score raised by the points awarded. Nothing is enforced per
  question: the same submit a second time appends a second record and adds the points
  again.
\<close>

theorem submit_answer_scores:
  assumes "sockets st sid = Some sock"
    and "session_of st sock = Some (r, s)"
    and "isActive s"
    and "Map_get (participants s) sid = Some p"
    and "check_answer q sel = Inr b"
  shows "award q b = (if b = Some True then q_points q else 0)
    \<and> participant_of (result_state (submit_answer st sid qid sel t (Found q) ok)) r sid =
        Some (p\<lparr>p_answers := p_answers p @
                  [\<lparr>a_question = qid, a_selectedAnswer = sel, a_isCorrect = b,
                    a_timeSpent = t, a_points = award q b\<rparr>],
                p_score := p_score p + award q b\<rparr>)
    \<and> (ok \<longrightarrow> (ToSocket sid, AnswerResult b (award q b) (p_score p + award q b) (revealed q))
          \<in> set (result_emissions (submit_answer st sid qid sel t (Found q) ok)))
    \<and> participant_of
        (result_state
          (submit_answer (result_state (submit_answer st sid qid sel t (Found q) ok))
             sid qid sel t (Found q) ok')) r sid =
        Some (p\<lparr>p_answers := p_answers p @
                  [\<lparr>a_question = qid, a_selectedAnswer = sel, a_isCorrect = b,
                    a_timeSpent = t, a_points = award q b\<rparr>,
                   \<lparr>a_question = qid, a_selectedAnswer = sel, a_isCorrect = b,
                    a_timeSpent = t, a_points = award q b\<rparr>],
                p_score := p_score p + award q b + award q b\<rparr>)"
proof -
  let ?rec = "\<lparr>a_question = qid, a_selectedAnswer = sel, a_isCorrect = b,
                    a_timeSpent = t, a_points = award q b\<rparr>"
  let ?p1 = "p\<lparr>p_answers := p_answers p @ [?rec], p_score := p_score p + award q b\<rparr>"
  let ?s1 = "s\<lparr>participants := Map_set (participants s) sid ?p1\<rparr>"
  let ?st1 = "st\<lparr>activeQuizSessions := (activeQuizSessions st)(r \<mapsto> ?s1)\<rparr>"
  have st1: "result_state (submit_answer st sid qid sel t (Found q) ok) = ?st1"
    using assms by (rule submit_answer_step(1))
  have room: "roomId sock = Some r"
    using assms(2) by (simp add: session_of_def split: option.splits)
  have a1: "sockets ?st1 sid = Some sock" using assms(1) by simp
  have a2: "session_of ?st1 sock = Some (r, ?s1)" using room by (simp add: session_of_def)
  have a3: "isActive ?s1" using assms(3) by simp
  have a4: "Map_get (participants ?s1) sid = Some ?p1" by simp
  have st2: "result_state (submit_answer ?st1 sid qid sel t (Found q) ok') =
      ?st1\<lparr>activeQuizSessions := (activeQuizSessions ?st1)(r \<mapsto>
             ?s1\<lparr>participants := Map_set (participants ?s1) sid
               (?p1\<lparr>p_answers := p_answers ?p1 @ [?rec],
                  p_score := p_score ?p1 + award q b\<rparr>)\<rparr>)\<rparr>"
    using a1 a2 a3 a4 assms(5) by (rule submit_answer_step(1))
  have c1: "award q b = (if b = Some True then q_points q else 0)" by (rule award_eq)
  have c2: "participant_of ?st1 r sid = Some ?p1" by (simp add: participant_of_def)
  have c3: "ok \<longrightarrow> (ToSocket sid, AnswerResult b (award q b) (p_score p + award q b) (revealed q))
          \<in> set (result_emissions (submit_answer st sid qid sel t (Found q) ok))"
  proof
    assume ok
    then show "(ToSocket sid, AnswerResult b (award q b) (p_score p + award q b) (revealed q))
          \<in> set (result_emissions (submit_answer st sid qid sel t (Found q) ok))"
      by (simp add: submit_answer_step(2) [OF assms])
  qed
  have c4: "participant_of (result_state (submit_answer ?st1 sid qid sel t (Found q) ok')) r sid =
        Some (p\<lparr>p_answers := p_answers p @ [?rec, ?rec],
                p_score := p_score p + award q b + award q b\<rparr>)"
    unfolding st2 by (simp add: participant_of_def)
  show ?thesis using c1 c2 c3 c4 unfolding st1 by simp
qed


lemma check_paris: "check_answer paris_mc (Some ''Paris'') = Inr (Some True)"
  by (simp add: check_answer_def paris_mc_def)

theorem submit_answer_scores_witness:
  "participant_of
     (result_state (submit_answer started ''s2'' ''q1'' (Some ''Paris'') 7 (Found paris_mc) True))
     ''quiz-a1'' ''s2'' =
   Some \<lparr>p_userId = ''u2'', p_username = ''bob'', p_score = 10,
         p_answers = [\<lparr>a_question = ''q1'', a_selectedAnswer = Some ''Paris'',
                        a_isCorrect = Some True, a_timeSpent = 7, a_points = 10\<rparr>]\<rparr>
   \<and> map_option p_score
       (participant_of
         (result_state
           (submit_answer
             (result_state
               (submit_answer started ''s2'' ''q1'' (Some ''Paris'') 7 (Found paris_mc) True))
             ''s2'' ''q1'' (Some ''Paris'') 7 (Found paris_mc) True))
         ''quiz-a1'' ''s2'') = Some 20"
proof -
  have h1: "sockets started ''s2'' = Some (room_socket ''u2'' ''bob'')"
    by (simp add: started_eq)
  have h2: "session_of started (room_socket ''u2'' ''bob'') = Some (''quiz-a1'', sample_session 0)"
    by (simp add: started_eq session_of_def room_socket_def)
  have h3: "isActive (sample_session 0)"
    by (simp add: sample_session_def)
  have h4: "Map_get (participants (sample_session 0)) ''s2'' = Some (newcomer ''u2'' ''bob'')"
    by (simp add: sample_session_def)
  have pts: "award paris_mc (Some True) = 10"
    by (simp add: award_def truthy_def paris_mc_def)
  show ?thesis
    using submit_answer_scores [OF h1 h2 h3 h4 check_paris, of "''q1''" 7 True True]
    by (simp add: pts newcomer_def)
qed

text \<open>
  C4, as stated, fails: a submission naming the first question, sent when the session is at
  its second question, is evaluated and scored.
\<close>

theorem stale_submit_scored:
  "map_option currentQuestion (activeQuizSessions second_question ''quiz-a1'') = Some 1
   \<and> map_option quiz (activeQuizSessions second_question ''quiz-a1'') = Some sample_quiz
   \<and> stale_submit \<noteq> Continue second_question []
   \<and> map_option p_score (participant_of second_question ''quiz-a1'' ''s2'') = Some 0
   \<and> map_option p_score (participant_of (result_state stale_submit) ''quiz-a1'' ''s2'') = Some 10
   \<and> result_emissions stale_submit =
       [(ToStore, QuestionSave ''q1'' \<lparr>correctAnswers = 1, totalAnswers = 1, accuracyRate = Fin 100\<rparr>),
        (ToSocket ''s2'', AnswerResult (Some True) 10 10 (Some ''Paris''))]"
  by (simp add: stale_submit_def second_question_eq submit_answer_def session_of_def
      room_socket_def sample_session_def sample_quiz_def newcomer_def participant_of_def
      check_answer_def award_def truthy_def Let_def bump_stats_def revealed_def paris_mc_def
      no_stats_def percentage_of_div)

text \<open>
  C4, amended. submit-answer is a silent no-op (state unchanged, nothing emitted) whenever
  there is no session for the room, the session is inactive, there is no participant for
  the connection, or the question is not found. A submission for a question the session has
  already left is not one of these cases: the handler never reads \<^verbatim>\<open>currentQuestion\<close>, so
  what it emits is the same at every question index.
\<close>

theorem submit_answer_silent:
  "(sockets st sid = Some sock \<longrightarrow>
      (session_of st sock = None
       \<or> (\<exists>r s. session_of st sock = Some (r, s) \<and>
                 (\<not> isActive s \<or> Map_get (participants s) sid = None))
       \<or> l = Missing) \<longrightarrow>
      submit_answer st sid qid sel t l ok = Continue st [])
   \<and> (sockets st sid = Some sock \<longrightarrow> session_of st sock = Some (r, s) \<longrightarrow>
      result_emissions
        (submit_answer
          (st\<lparr>activeQuizSessions := (activeQuizSessions st)(r \<mapsto> s\<lparr>currentQuestion := k\<rparr>)\<rparr>)
          sid qid sel t l ok) =
      result_emissions (submit_answer st sid qid sel t l ok))"
proof (intro conjI impI)
  assume "sockets st sid = Some sock"
    and "session_of st sock = None
       \<or> (\<exists>r s. session_of st sock = Some (r, s) \<and>
                 (\<not> isActive s \<or> Map_get (participants s) sid = None))
       \<or> l = Missing"
  then show "submit_answer st sid qid sel t l ok = Continue st []"
    by (auto simp: submit_answer_def split: option.splits)
next
  assume a: "sockets st sid = Some sock" "session_of st sock = Some (r, s)"
  then have room: "roomId sock = Some r" "activeQuizSessions st r = Some s"
    by (auto simp: session_of_def split: option.splits)
  show "result_emissions
        (submit_answer
          (st\<lparr>activeQuizSessions := (activeQuizSessions st)(r \<mapsto> s\<lparr>currentQuestion := k\<rparr>)\<rparr>)
          sid qid sel t l ok) =
      result_emissions (submit_answer st sid qid sel t l ok)"
    using a room
    by (simp add: submit_answer_def session_of_def Let_def
        split: option.splits lookup.splits sum.splits)
qed

theorem submit_answer_silent_witness:
  "submit_answer started ''s2'' ''q9'' (Some ''Paris'') 7 Missing True = Continue started []
   \<and> result_emissions
        (submit_answer second_question ''s2'' ''q1'' (Some ''Paris'') 7 (Found paris_mc) True) =
      result_emissions
        (submit_answer started ''s2'' ''q1'' (Some ''Paris'') 7 (Found paris_mc) True)"
proof -
  have h1: "sockets started ''s2'' = Some (room_socket ''u2'' ''bob'')"
    by (simp add: started_eq)
  have h2: "session_of started (room_socket ''u2'' ''bob'') = Some (''quiz-a1'', sample_session 0)"
    by (simp add: started_eq session_of_def room_socket_def)
  have upd: "started\<lparr>activeQuizSessions := (activeQuizSessions started)(''quiz-a1'' \<mapsto>
               (sample_session 0)\<lparr>currentQuestion := 1\<rparr>)\<rparr> =
             second_question\<lparr>timers := [(''s1'', 30000)]\<rparr>"
    by (simp add: started_eq second_question_eq sample_session_def)
  have tm: "\<And>st ts. result_emissions
        (submit_answer (st\<lparr>timers := ts\<rparr>) ''s2'' ''q1'' (Some ''Paris'') 7 (Found paris_mc) True)
      = result_emissions (submit_answer st ''s2'' ''q1'' (Some ''Paris'') 7 (Found paris_mc) True)"
    by (simp add: submit_answer_def session_of_def Let_def
        split: option.splits lookup.splits sum.splits)
  have a: "submit_answer started ''s2'' ''q9'' (Some ''Paris'') 7 Missing True = Continue started []"
    using submit_answer_silent [of started "''s2''" "room_socket ''u2'' ''bob''" Missing "''q9''"
        "Some ''Paris''" 7 True] h1
    by blast
  have "result_emissions
        (submit_answer
          (started\<lparr>activeQuizSessions := (activeQuizSessions started)(''quiz-a1'' \<mapsto>
               (sample_session 0)\<lparr>currentQuestion := 1\<rparr>)\<rparr>)
          ''s2'' ''q1'' (Some ''Paris'') 7 (Found paris_mc) True) =
      result_emissions (submit_answer started ''s2'' ''q1'' (Some ''Paris'') 7 (Found paris_mc) True)"
    using submit_answer_silent [of started "''s2''" "room_socket ''u2'' ''bob''" _ _ _ _ _
        "''quiz-a1''" "sample_session 0"] h1 h2
    by blast
  then have b: "result_emissions
        (submit_answer second_question ''s2'' ''q1'' (Some ''Paris'') 7 (Found paris_mc) True) =
      result_emissions (submit_answer started ''s2'' ''q1'' (Some ''Paris'') 7 (Found paris_mc) True)"
    by (simp only: upd tm)
  show ?thesis using a b by simp
qed

subsection \<open>Finishing\<close>

lemma foldl_points:
  "foldl (\<lambda>total q. total + q_points q) a (qs :: question list) = a + sum_list (map q_points qs)"
  by (induction qs arbitrary: a) auto

lemma max_score_sum: "max_score s = sum_list (map q_points (questions (quiz s)))"
  by (simp add: max_score_def foldl_points)


lemma percentage_of_zero: "percentage_of a 0 = (if a = 0 then NaN else if 0 < a then PInf else NInf)"
  by (simp add: percentage_of_def js_div_def js_mul_def Math_round_def)

lemma percentage_finite: "is_finite (percentage_of a b) = (b \<noteq> 0)"
  by (simp add: percentage_of_def js_div_def js_mul_def Math_round_def is_finite_def)

lemma finish_quiz_ok:
  assumes "sockets st sid = Some sock" "session_of st sock = Some (r, s)"
    "Map_get (participants s) sid = Some p"
  shows "finish_quiz st sid True True =
     Continue (remove_participant st r s sid)
       [(ToStore, ScoreCreate \<lparr>sc_user = p_userId p, sc_quiz = quiz_id (quiz s),
                                sc_answers = p_answers p, sc_score = p_score p,
                                sc_maxScore = max_score s,
                                sc_percentage = percentage_of (p_score p) (max_score s),
                                sc_completed = True\<rparr>),
        (ToStore, QuizUpdateStats (quiz_id (quiz s))),
        (ToSocket sid, QuizCompleted (p_score p) (max_score s)
            (percentage_of (p_score p) (max_score s)) (finish_leaderboard s)
            (rank_of (finish_leaderboard s) p))]"
  using assms by (simp add: finish_quiz_def Let_def)





lemma empty_room_eq:
  "empty_room = \<lparr>sockets = [''s1'' \<mapsto> empty_socket],
      activeQuizSessions = [''quiz-e1'' \<mapsto> empty_session], timers = []\<rparr>"
  by (simp add: empty_room_def handler_defs empty_session_def empty_socket_def newcomer_def)

lemma finish_quiz_persists:
  assumes "sockets st sid = Some sock" "session_of st sock = Some (r, s)"
    "Map_get (participants s) sid = Some p"
  shows "(ToStore, ScoreCreate \<lparr>sc_user = p_userId p, sc_quiz = quiz_id (quiz s),
                                sc_answers = p_answers p, sc_score = p_score p,
                                sc_maxScore = max_score s,
                                sc_percentage = percentage_of (p_score p) (max_score s),
                                sc_completed = True\<rparr>)
         \<in> set (result_emissions (finish_quiz st sid createOk statsOk))"
  using assms by (simp add: finish_quiz_def Let_def)

lemma sum_points_length:
  "\<forall>q\<in>set qs. 1 \<le> q_points q \<Longrightarrow>
     int (length qs) \<le> sum_list (map q_points (qs :: question list))"
  by (induction qs) auto

lemma sum_points_pos:
  assumes "\<forall>q\<in>set qs. 1 \<le> q_points q" "qs \<noteq> []"
  shows "0 < sum_list (map q_points (qs :: question list))"
  using sum_points_length [OF assms(1)] assms(2) by (cases qs) auto

text \<open>
  C10. finish-quiz divides the participant's score by the maximum score without a guard,
  both in the document it persists and in the result it returns. For a session whose quiz
  has no question the maximum score is 0 and the percentage is not a number (NaN, or an
  infinity for a non-zero score); a finite percentage is obtained only when the quiz has
  at least one question, and with point values of at least 1 exactly then.
\<close>

theorem percentage_unguarded:
  assumes "sockets st sid = Some sock"
    and "session_of st sock = Some (r, s)"
    and "Map_get (participants s) sid = Some p"
  shows "(ToStore, ScoreCreate \<lparr>sc_user = p_userId p, sc_quiz = quiz_id (quiz s),
                                sc_answers = p_answers p, sc_score = p_score p,
                                sc_maxScore = max_score s,
                                sc_percentage = percentage_of (p_score p) (max_score s),
                                sc_completed = True\<rparr>)
           \<in> set (result_emissions (finish_quiz st sid createOk statsOk))
     \<and> (ToSocket sid, QuizCompleted (p_score p) (max_score s)
            (percentage_of (p_score p) (max_score s)) (finish_leaderboard s)
            (rank_of (finish_leaderboard s) p))
           \<in> set (result_emissions (finish_quiz st sid True True))
     \<and> (questions (quiz s) = [] \<longrightarrow>
          max_score s = 0 \<and>
          percentage_of (p_score p) (max_score s) =
            (if p_score p = 0 then NaN else if 0 < p_score p then PInf else NInf))
     \<and> (is_finite (percentage_of (p_score p) (max_score s)) \<longrightarrow> questions (quiz s) \<noteq> [])
     \<and> ((\<forall>q\<in>set (questions (quiz s)). 1 \<le> q_points q) \<longrightarrow>
          is_finite (percentage_of (p_score p) (max_score s)) = (questions (quiz s) \<noteq> []))"
proof (intro conjI impI)
  show "(ToStore, ScoreCreate \<lparr>sc_user = p_userId p, sc_quiz = quiz_id (quiz s),
                                sc_answers = p_answers p, sc_score = p_score p,
                                sc_maxScore = max_score s,
                                sc_percentage = percentage_of (p_score p) (max_score s),
                                sc_completed = True\<rparr>)
           \<in> set (result_emissions (finish_quiz st sid createOk statsOk))"
    using assms by (rule finish_quiz_persists)
  show "(ToSocket sid, QuizCompleted (p_score p) (max_score s)
            (percentage_of (p_score p) (max_score s)) (finish_leaderboard s)
            (rank_of (finish_leaderboard s) p))
           \<in> set (result_emissions (finish_quiz st sid True True))"
    by (simp add: finish_quiz_ok [OF assms])
next
  assume e: "questions (quiz s) = []"
  then show "max_score s = 0" by (simp add: max_score_sum)
  with e show "percentage_of (p_score p) (max_score s) =
            (if p_score p = 0 then NaN else if 0 < p_score p then PInf else NInf)"
    by (simp add: percentage_of_zero)
next
  assume "is_finite (percentage_of (p_score p) (max_score s))"
  then show "questions (quiz s) \<noteq> []"
    by (auto simp: percentage_finite max_score_sum)
next
  assume "\<forall>q\<in>set (questions (quiz s)). 1 \<le> q_points q"
  then show "is_finite (percentage_of (p_score p) (max_score s)) = (questions (quiz s) \<noteq> [])"
    using sum_points_pos [of "questions (quiz s)"]
    by (cases "questions (quiz s) = []") (auto simp: percentage_finite max_score_sum)
qed

theorem percentage_unguarded_witness:
  "(ToStore, ScoreCreate \<lparr>sc_user = ''u1'', sc_quiz = ''e1'', sc_answers = [], sc_score = 0,
                           sc_maxScore = 0, sc_percentage = NaN, sc_completed = True\<rparr>)
      \<in> set (result_emissions (finish_quiz empty_room ''s1'' True True))
   \<and> (ToSocket ''s1'',
       QuizCompleted 0 0 NaN [\<lparr>e_username = ''ann'', e_score = 0, e_percentage = Some NaN\<rparr>] 1)
      \<in> set (result_emissions (finish_quiz empty_room ''s1'' True True))"
proof -
  have h1: "sockets empty_room ''s1'' = Some empty_socket"
    by (simp add: empty_room_eq)
  have h2: "session_of empty_room empty_socket = Some (''quiz-e1'', empty_session)"
    by (simp add: empty_room_eq session_of_def empty_socket_def)
  have h3: "Map_get (participants empty_session) ''s1'' = Some (newcomer ''u1'' ''ann'')"
    by (simp add: empty_session_def)
  have e: "questions (quiz empty_session) = []"
    by (simp add: empty_session_def fresh_session_def empty_quiz_def)
  have lb: "finish_leaderboard empty_session =
      [\<lparr>e_username = ''ann'', e_score = 0, e_percentage = Some NaN\<rparr>]"
    by (simp only: finish_leaderboard_def max_score_sum e)
       (simp add: Array_sort_def finish_entry_def Map_values_def empty_session_def
        newcomer_def percentage_of_zero)
  have rk: "rank_of [\<lparr>e_username = ''ann'', e_score = 0, e_percentage = Some NaN\<rparr>]
      (newcomer ''u1'' ''ann'') = 1"
    by (simp add: rank_of_def newcomer_def)
  have ms: "max_score empty_session = 0"
    by (simp add: max_score_sum e)
  have f: "p_userId (newcomer ''u1'' ''ann'') = ''u1''" "p_score (newcomer ''u1'' ''ann'') = 0"
    "p_answers (newcomer ''u1'' ''ann'') = []" "quiz_id (quiz empty_session) = ''e1''"
    "percentage_of 0 0 = NaN"
    by (simp_all add: newcomer_def empty_session_def fresh_session_def empty_quiz_def
        percentage_of_zero)
  have a: "(ToStore, ScoreCreate \<lparr>sc_user = ''u1'', sc_quiz = ''e1'', sc_answers = [], sc_score = 0,
                           sc_maxScore = 0, sc_percentage = NaN, sc_completed = True\<rparr>)
      \<in> set (result_emissions (finish_quiz empty_room ''s1'' True True))"
    using percentage_unguarded [OF h1 h2 h3, of True True, THEN conjunct1]
    by (simp only: ms f)
  have b: "(ToSocket ''s1'',
       QuizCompleted 0 0 NaN [\<lparr>e_username = ''ann'', e_score = 0, e_percentage = Some NaN\<rparr>] 1)
      \<in> set (result_emissions (finish_quiz empty_room ''s1'' True True))"
    using percentage_unguarded [OF h1 h2 h3, of True True, THEN conjunct2, THEN conjunct1]
    by (simp only: ms f lb rk)
  show ?thesis using a b by simp
qed

subsection \<open>The leaderboard\<close>

lemma mset_insert_cmp: "mset (insert_cmp cmp x ys) = add_mset x (mset ys)"
  by (induction ys) auto

lemma mset_Array_sort: "mset (Array_sort cmp xs) = mset xs"
  unfolding Array_sort_def by (induction xs) (auto simp: mset_insert_cmp)

lemma set_insert_cmp: "set (insert_cmp cmp x ys) = insert x (set ys)"
  by (induction ys) auto

lemma sorted_insert_by_score:
  "sorted_wrt (\<lambda>a b. e_score b \<le> e_score a) ys \<Longrightarrow>
   sorted_wrt (\<lambda>a b. e_score b \<le> e_score a) (insert_cmp by_score x ys)"
  by (induction ys) (auto simp: set_insert_cmp by_score_def)

lemma sorted_Array_sort: "sorted_wrt (\<lambda>a b. e_score b \<le> e_score a) (Array_sort by_score xs)"
  unfolding Array_sort_def by (induction xs) (auto simp: sorted_insert_by_score)

lemma filter_insert_by_score:
  "filter (\<lambda>e. e_score e = k) (insert_cmp by_score x ys) =
     (if e_score x = k then x # filter (\<lambda>e. e_score e = k) ys
      else filter (\<lambda>e. e_score e = k) ys)"
  by (induction ys) (auto simp: by_score_def)

lemma stable_Array_sort:
  "filter (\<lambda>e. e_score e = k) (Array_sort by_score xs) = filter (\<lambda>e. e_score e = k) xs"
  unfolding Array_sort_def by (induction xs) (auto simp: filter_insert_by_score)

text \<open>
  C6. The leaderboard of finish-quiz and the one of get-leaderboard hold exactly the entries
  of the current participants, sorted by score descending, entries of equal score in the
  order in which the participant map lists them. An entry has no rank field (its rank is
  its position in the list), the participant record has none either, and get-leaderboard
  leaves the state as it was: the standing is computed afresh by every call.
\<close>

theorem leaderboard_sorted_stable:
  "mset (finish_leaderboard s) =
     mset (map (finish_entry (max_score s)) (Map_values (participants s)))
   \<and> sorted_wrt (\<lambda>a b. e_score b \<le> e_score a) (finish_leaderboard s)
   \<and> filter (\<lambda>e. e_score e = k) (finish_leaderboard s) =
       filter (\<lambda>e. e_score e = k)
         (map (finish_entry (max_score s)) (Map_values (participants s)))
   \<and> mset (live_leaderboard s) = mset (map plain_entry (Map_values (participants s)))
   \<and> sorted_wrt (\<lambda>a b. e_score b \<le> e_score a) (live_leaderboard s)
   \<and> filter (\<lambda>e. e_score e = k) (live_leaderboard s) =
       filter (\<lambda>e. e_score e = k) (map plain_entry (Map_values (participants s)))
   \<and> map e_username (map plain_entry (Map_values (participants s))) =
       map p_username (Map_values (participants s))
   \<and> map e_score (map plain_entry (Map_values (participants s))) =
       map p_score (Map_values (participants s))
   \<and> result_state (get_leaderboard st sid) = st"
  by (simp add: finish_leaderboard_def live_leaderboard_def mset_Array_sort sorted_Array_sort
      stable_Array_sort get_leaderboard_def plain_entry_def comp_def
      split: option.splits)

lemma namesakes_eq:
  "namesakes =
     \<lparr>sockets = [''s1'' \<mapsto> room_socket ''u1'' ''sam'', ''s2'' \<mapsto> room_socket ''u2'' ''sam''],
      activeQuizSessions = [''quiz-a1'' \<mapsto> namesakes_session],
      timers = [(''s1'', 30000)]\<rparr>"
  by (simp add: namesakes_def handler_defs room_socket_def newcomer_def namesakes_session_def
      check_answer_def award_def truthy_def sample_quiz_def time_limit_def paris_mc_def)

lemma namesakes_max: "max_score namesakes_session = 15"
  by (simp add: max_score_sum namesakes_session_def sample_quiz_def paris_mc_def paris_fib_def)

text \<open>
  C7 fails on the code where two participants share a display name: the second, with no
  points, finishes and is told rank 1, the position of the namesake's entry; the entry of
  the finisher is second. \<^verbatim>\<open>findIndex\<close> looks the participant up by \<^verbatim>\<open>username\<close>.
\<close>

theorem namesake_rank:
  "result_emissions (finish_quiz namesakes ''s2'' True True) ! 2 =
     (ToSocket ''s2'',
      QuizCompleted 0 15 (Fin 0)
        [\<lparr>e_username = ''sam'', e_score = 10, e_percentage = Some (Fin 67)\<rparr>,
         \<lparr>e_username = ''sam'', e_score = 0, e_percentage = Some (Fin 0)\<rparr>] 1)
   \<and> tagged_leaderboard namesakes_session =
       [(''s1'', \<lparr>e_username = ''sam'', e_score = 10, e_percentage = Some (Fin 67)\<rparr>),
        (''s2'', \<lparr>e_username = ''sam'', e_score = 0, e_percentage = Some (Fin 0)\<rparr>)]
   \<and> own_position namesakes_session ''s2'' = 2"
proof -
  have t: "tagged_leaderboard namesakes_session =
       [(''s1'', \<lparr>e_username = ''sam'', e_score = 10, e_percentage = Some (Fin 67)\<rparr>),
        (''s2'', \<lparr>e_username = ''sam'', e_score = 0, e_percentage = Some (Fin 0)\<rparr>)]"
    by (simp only: tagged_leaderboard_def namesakes_max)
       (simp add: namesakes_session_def newcomer_def Array_sort_def by_score_def finish_entry_def
          percentage_of_div)
  have lb: "finish_leaderboard namesakes_session =
       [\<lparr>e_username = ''sam'', e_score = 10, e_percentage = Some (Fin 67)\<rparr>,
        \<lparr>e_username = ''sam'', e_score = 0, e_percentage = Some (Fin 0)\<rparr>]"
    by (simp only: finish_leaderboard_def namesakes_max)
       (simp add: namesakes_session_def newcomer_def Array_sort_def by_score_def finish_entry_def
          Map_values_def percentage_of_div)
  have h1: "sockets namesakes ''s2'' = Some (room_socket ''u2'' ''sam'')"
    by (simp add: namesakes_eq)
  have h2: "session_of namesakes (room_socket ''u2'' ''sam'') = Some (''quiz-a1'', namesakes_session)"
    by (simp add: namesakes_eq session_of_def room_socket_def)
  have h3: "Map_get (participants namesakes_session) ''s2'' = Some (newcomer ''u2'' ''sam'')"
    by (simp add: namesakes_session_def)
  have rk: "rank_of [\<lparr>e_username = ''sam'', e_score = 10, e_percentage = Some (Fin 67)\<rparr>,
        \<lparr>e_username = ''sam'', e_score = 0, e_percentage = Some (Fin 0)\<rparr>] (newcomer ''u2'' ''sam'') = 1"
    by (simp add: rank_of_def newcomer_def)
  have f: "p_score (newcomer ''u2'' ''sam'') = 0" "percentage_of 0 15 = Fin 0"
    by (simp_all add: newcomer_def percentage_of_div)
  have a: "result_emissions (finish_quiz namesakes ''s2'' True True) ! 2 =
     (ToSocket ''s2'',
      QuizCompleted 0 15 (Fin 0)
        [\<lparr>e_username = ''sam'', e_score = 10, e_percentage = Some (Fin 67)\<rparr>,
         \<lparr>e_username = ''sam'', e_score = 0, e_percentage = Some (Fin 0)\<rparr>] 1)"
    by (simp add: finish_quiz_ok [OF h1 h2 h3] namesakes_max lb rk f)
  have c: "own_position namesakes_session ''s2'' = 2"
    by (simp add: own_position_def t)
  show ?thesis using a t c by simp
qed

text \<open>
  The tagged leaderboard is the leaderboard: dropping the connection ids gives the list
  that finish-quiz returns.
\<close>

lemma map_snd_insert_cmp:
  "map snd (insert_cmp (\<lambda>a b. cmp (snd a) (snd b)) x ys) = insert_cmp cmp (snd x) (map snd ys)"
  by (induction ys) auto

lemma map_snd_Array_sort:
  "map snd (Array_sort (\<lambda>a b. cmp (snd a) (snd b)) xs) = Array_sort cmp (map snd xs)"
  unfolding Array_sort_def by (induction xs) (auto simp: map_snd_insert_cmp)

lemma tagged_leaderboard_entries: "map snd (tagged_leaderboard s) = finish_leaderboard s"
  by (simp add: tagged_leaderboard_def finish_leaderboard_def map_snd_Array_sort Map_values_def
      comp_def case_prod_unfold)

text \<open>
  Where the display names of the participants present are pairwise different (and the map
  has each connection once), the rank returned is the finisher's own position.
\<close>

lemma findIndex_cong:
  "(\<And>x. x \<in> set xs \<Longrightarrow> P x = Q x) \<Longrightarrow> findIndex P xs = findIndex Q xs"
  by (induction xs) auto

lemma findIndex_map: "findIndex P (map f xs) = findIndex (\<lambda>x. P (f x)) xs"
  by (induction xs) auto

lemma Map_get_distinct:
  "distinct (map fst m) \<Longrightarrow> (k, v) \<in> set m \<Longrightarrow> Map_get m k = Some v"
  by (induction m) (auto simp: rev_image_eqI)

lemma Map_get_in: "Map_get m k = Some v \<Longrightarrow> (k, v) \<in> set m"
  by (induction m) (auto split: if_splits)

lemma rank_is_own_position:
  assumes keys: "distinct (map fst (participants s))"
    and names: "distinct (map (\<lambda>(k, p). p_username p) (participants s))"
    and p: "Map_get (participants s) sid = Some p"
  shows "rank_of (finish_leaderboard s) p = own_position s sid"
proof -
  let ?tag = "\<lambda>(k, p). (k, finish_entry (max_score s) p)"
  have set_t: "set (tagged_leaderboard s) = ?tag ` set (participants s)"
    using mset_Array_sort [of "\<lambda>a b. by_score (snd a) (snd b)" "map ?tag (participants s)"]
    by (metis tagged_leaderboard_def set_mset_mset set_map)
  have agree: "(e_username e = p_username p) = (k = sid)" if "(k, e) \<in> set (tagged_leaderboard s)" for k e
  proof -
    from that set_t obtain p' where in': "(k, p') \<in> set (participants s)"
      and e: "e = finish_entry (max_score s) p'"
      by auto
    have inp: "(sid, p) \<in> set (participants s)" using p by (rule Map_get_in)
    show ?thesis
    proof
      assume "e_username e = p_username p"
      then have "p_username p' = p_username p" by (simp add: e finish_entry_def)
      with names in' inp have "(k, p') = (sid, p)"
        by (auto simp: distinct_map inj_on_def)
      then show "k = sid" by simp
    next
      assume "k = sid"
      with keys in' p have "p' = p" by (auto dest: Map_get_distinct)
      then show "e_username e = p_username p" by (simp add: e finish_entry_def)
    qed
  qed
  have "findIndex (\<lambda>e. e_username e = p_username p) (map snd (tagged_leaderboard s)) =
        findIndex (\<lambda>(k, e). k = sid) (tagged_leaderboard s)"
    unfolding findIndex_map by (rule findIndex_cong) (auto simp: agree)
  then show ?thesis
    by (simp add: rank_of_def own_position_def tagged_leaderboard_entries)
qed

subsection \<open>Session lifecycle\<close>


lemma Map_set_nonempty [simp]: "Map_set m k v \<noteq> []"
  by (induction m k v rule: Map_set.induct) auto




lemma nonempty_other [simp]:
  "sessions_nonempty (st\<lparr>sockets := x\<rparr>) = sessions_nonempty st"
  "sessions_nonempty (st\<lparr>timers := y\<rparr>) = sessions_nonempty st"
  by (simp_all add: sessions_nonempty_def)









subsection \<open>The question index\<close>

lemma in_range_other [simp]:
  "index_in_range (st\<lparr>sockets := x\<rparr>) = index_in_range st"
  "index_in_range (st\<lparr>timers := y\<rparr>) = index_in_range st"
  by (simp_all add: index_in_range_def)







subsection \<open>Timeouts\<close>

lemma timer_fire_sessions:
  "activeQuizSessions (result_state (timer_fire st n)) = activeQuizSessions st"
  by (simp add: timer_fire_def Let_def split: option.splits)

lemma finish_signals_append [simp]:
  "finish_signals (xs @ ys) = finish_signals xs + finish_signals ys"
  by (simp add: finish_signals_def)

lemma questions_shown_append [simp]:
  "questions_shown (xs @ ys) = questions_shown xs @ questions_shown ys"
  by (simp add: questions_shown_def)










end
